theory Spec2Isabelle
  imports Main "HOL-Library.Word"
begin

section \<open>Parameterised analytical queries of the SDC metrics notebooks\<close>

text \<open>
  The repository consists of two Jupyter notebooks, \<^verbatim>\<open>sdc_usage_through_lua.ipynb\<close> and
  \<^verbatim>\<open>T231952-part-1.ipynb\<close>. Their reusable core is small: SQL templates held in Python
  strings, filled with \<^verbatim>\<open>str.format\<close>, sent to one of two external query helpers
  (\<^verbatim>\<open>mariadb.run\<close>, \<^verbatim>\<open>hive.run\<close>), and one cell that combines three one-row count frames by
  inclusion-exclusion. This theory embeds exactly these pieces:
  \<^item> Python's \<^verbatim>\<open>str.format\<close> with keyword arguments, as far as the notebooks use it;
  \<^item> the template strings, character for character;
  \<^item> pandas column access and integer series arithmetic, for the inclusion-exclusion cell;
  \<^item> the recorded cell outputs that the specification refers to.
\<close>

subsection \<open>Exceptions\<close>

text \<open>
  \<open>KeyError\<close>, \<open>IndexError\<close> and \<open>ValueError\<close> are the Python exceptions that
  \<^verbatim>\<open>str.format\<close> and \<^verbatim>\<open>DataFrame.__getitem__\<close> raise; they carry the key, the positional index
  and the message. \<open>BackendUnavailableError\<close> and \<open>QueryExecutionError\<close> are the two
  failures of a query backend. \<open>Unmodelled\<close> is not an exception: it marks a replacement
  field that uses a feature of \<^verbatim>\<open>str.format\<close> which no template of the notebooks uses and
  which is left out of the model (a conversion \<^verbatim>\<open>!r\<close>, a format specification \<^verbatim>\<open>:>10\<close>,
  attribute access \<^verbatim>\<open>a.b\<close> or indexing \<^verbatim>\<open>a[0]\<close>). No theorem below draws a conclusion
  from an \<open>Unmodelled\<close> outcome.
\<close>

datatype error =
    KeyError string
  | IndexError nat
  | ValueError string
  | Unmodelled
  | BackendUnavailableError
  | QueryExecutionError string

subsection \<open>Python's \<^verbatim>\<open>str.format\<close> with keyword arguments\<close>

text \<open>
  Every binding in the notebooks has the shape
  \<^verbatim>\<open>template.format(snapshot = wmf_snapshot, start_date = start_date, end_date = end_date)\<close>
  or \<^verbatim>\<open>template.format(template_title = 'Information')\<close>: keyword arguments only, all
  of them strings. The keyword arguments are a dictionary \<open>string \<rightharpoonup> string\<close>; the tuple of
  positional arguments is empty.

  The model follows CPython's formatter (\<^verbatim>\<open>MarkupIterator_next\<close>, \<^verbatim>\<open>parse_field\<close>,
  \<^verbatim>\<open>get_integer\<close>, \<^verbatim>\<open>get_field_object\<close>), which works through the text from left to right
  and raises at the first offending position:
  \<^item> \<^verbatim>\<open>{{\<close> and \<^verbatim>\<open>}}\<close> are escapes for one brace;
  \<^item> a single \<^verbatim>\<open>}\<close> outside a field, and a \<^verbatim>\<open>{\<close> at the very end, raise \<open>ValueError\<close>;
  \<^item> a field runs up to the next \<^verbatim>\<open>}\<close>; a \<^verbatim>\<open>{\<close> inside it, or the end of the text, raise
    \<open>ValueError\<close>;
  \<^item> an empty field name and a field name of decimal digits index the (empty) tuple of
    positional arguments and raise \<open>IndexError\<close>; too many digits raise \<open>ValueError\<close>;
  \<^item> any other field name is looked up in the keyword arguments and raises \<open>KeyError\<close> with
    the name when it is missing;
  \<^item> a string value with no conversion and no format specification is inserted as it is.
\<close>

definition is_digit :: "char \<Rightarrow> bool" where
  "is_digit c = (c \<in> set ''0123456789'')"

definition PY_SSIZE_T_MAX :: nat where
  "PY_SSIZE_T_MAX = 2 ^ 63 - 1"

text \<open>
  \<^verbatim>\<open>get_integer\<close>: \<open>Inr (Some i)\<close> when the characters are all decimal digits, \<open>Inr None\<close>
  (CPython's \<^verbatim>\<open>-1\<close>) at the first other character, \<open>ValueError\<close> when the number read so far
  would exceed \<^verbatim>\<open>PY_SSIZE_T_MAX\<close>. The caller handles the empty name.
\<close>

fun get_integer :: "nat \<Rightarrow> string \<Rightarrow> error + nat option" where
  "get_integer accumulator [] = Inr (Some accumulator)"
| "get_integer accumulator (c # cs) =
     (if is_digit c then
        (let digitval = of_char c - 48 in
         if accumulator > (PY_SSIZE_T_MAX - digitval) div 10
         then Inl (ValueError ''Too many decimal digits in format string'')
         else get_integer (accumulator * 10 + digitval) cs)
      else Inr None)"

text \<open>
  \<^verbatim>\<open>get_field_object\<close> for a call without positional arguments: automatic numbering starts
  at index 0.
\<close>

definition get_field :: "(string \<rightharpoonup> string) \<Rightarrow> string \<Rightarrow> error + string" where
  "get_field kwargs field_name =
     (if field_name = [] then Inl (IndexError 0)
      else case get_integer 0 field_name of
             Inl e \<Rightarrow> Inl e
           | Inr (Some i) \<Rightarrow> Inl (IndexError i)
           | Inr None \<Rightarrow>
               (case kwargs field_name of
                  None \<Rightarrow> Inl (KeyError field_name)
                | Some v \<Rightarrow> Inr v))"

text \<open>
  \<^verbatim>\<open>parse_field\<close>, called on the text after an opening brace: the field name up to the
  closing brace.
\<close>

fun parse_field :: "string \<Rightarrow> error + string" where
  \<open>parse_field [] = Inl (ValueError ''expected \'}\' before end of string'')\<close>
| \<open>parse_field (c # cs) =
     (if c = CHR ''{'' then Inl (ValueError ''unexpected \'{\' in field name'')
      else if c = CHR ''}'' then Inr []
      else if c \<in> set ''!:.['' then Inl Unmodelled
      else (case parse_field cs of Inl e \<Rightarrow> Inl e | Inr field_name \<Rightarrow> Inr (c # field_name)))\<close>

definition emit :: "string \<Rightarrow> error + string \<Rightarrow> error + string" where
  "emit out r = (case r of Inl e \<Rightarrow> Inl e | Inr s \<Rightarrow> Inr (out @ s))"

fun format_py :: "(string \<rightharpoonup> string) \<Rightarrow> string \<Rightarrow> error + string" where
  \<open>format_py kwargs [] = Inr []\<close>
| \<open>format_py kwargs (c # cs) =
     (if c = CHR ''}'' then
        (case cs of
           [] \<Rightarrow> Inl (ValueError ''Single \'}\' encountered in format string'')
         | d # ds \<Rightarrow>
             if d = CHR ''}'' then emit [c] (format_py kwargs ds)
             else Inl (ValueError ''Single \'}\' encountered in format string''))
      else if c = CHR ''{'' then
        (case cs of
           [] \<Rightarrow> Inl (ValueError ''Single \'{\' encountered in format string'')
         | d # ds \<Rightarrow>
             if d = CHR ''{'' then emit [c] (format_py kwargs ds)
             else
               (case parse_field cs of
                  Inl e \<Rightarrow> Inl e
                | Inr field_name \<Rightarrow>
                    (case get_field kwargs field_name of
                       Inl e \<Rightarrow> Inl e
                     | Inr v \<Rightarrow> emit v (format_py kwargs (drop (Suc (length field_name)) cs)))))
      else emit [c] (format_py kwargs cs))\<close>

subsection \<open>Template filling as the specification words it\<close>

text \<open>
  The specification describes template filling as ``a single left-to-right pass substituting
  each \<^verbatim>\<open>{name}\<close>-style placeholder with the stringified parameter value; no nested
  templates, no conditional sections''. \<open>fill_pass\<close> is that pass, written from these words
  and independently of \<open>format_py\<close>: a placeholder is an opening brace, a non-empty run of
  letters, digits and underscores, and a closing brace; it is replaced by the parameter's
  value (the parameters are strings, so the stringified value is the value); every other
  character is copied. \<open>placeholders\<close> lists the names the pass meets, in text order.
\<close>

definition is_name_char :: "char \<Rightarrow> bool" where
  "is_name_char c =
     (c \<in> set ''abcdefghijklmnopqrstuvwxyzABCDEFGHIJKLMNOPQRSTUVWXYZ0123456789_'')"

definition placeholder_at :: "string \<Rightarrow> string option" where
  "placeholder_at cs =
     (let name = takeWhile is_name_char cs in
      if name \<noteq> [] \<and> take 1 (drop (length name) cs) = ''}'' then Some name else None)"

fun fill_pass :: "(string \<rightharpoonup> string) \<Rightarrow> string \<Rightarrow> string" where
  "fill_pass params [] = []"
| "fill_pass params (c # cs) =
     (if c = CHR ''{'' then
        (case placeholder_at cs of
           None \<Rightarrow> c # fill_pass params cs
         | Some name \<Rightarrow>
             (case params name of
                None \<Rightarrow> c # fill_pass params cs
              | Some v \<Rightarrow> v @ fill_pass params (drop (Suc (length name)) cs)))
      else c # fill_pass params cs)"

fun placeholders :: "string \<Rightarrow> string list" where
  "placeholders [] = []"
| "placeholders (c # cs) =
     (if c = CHR ''{'' then
        (case placeholder_at cs of
           None \<Rightarrow> placeholders cs
         | Some name \<Rightarrow> name # placeholders (drop (Suc (length name)) cs))
      else placeholders cs)"

text \<open>
  A plain template is a text whose only braces are those of placeholders, and whose
  placeholder names do not start with a digit (Python keyword argument names never do).
\<close>

fun plain_template :: "string \<Rightarrow> bool" where
  "plain_template [] = True"
| "plain_template (c # cs) =
     (if c = CHR ''{'' then
        (case placeholder_at cs of
           None \<Rightarrow> False
         | Some name \<Rightarrow> \<not> is_digit (hd name) \<and> plain_template (drop (Suc (length name)) cs))
      else c \<noteq> CHR ''}'' \<and> plain_template cs)"

text \<open>
  What binding a plain template amounts to: the filled text when every placeholder has a
  value, otherwise \<open>KeyError\<close> with the first placeholder, in text order, that has none.
\<close>

definition bind_result :: "(string \<rightharpoonup> string) \<Rightarrow> string \<Rightarrow> error + string" where
  "bind_result params template =
     (case find (\<lambda>name. params name = None) (placeholders template) of
        None \<Rightarrow> Inr (fill_pass params template)
      | Some name \<Rightarrow> Inl (KeyError name))"

subsection \<open>The query templates\<close>

text \<open>
  The template strings of \<^verbatim>\<open>sdc_usage_through_lua.ipynb\<close>. A backslash cannot be written
  inside a string literal here and appears as \<open>CHR 0x5C\<close>; the Python literals
  \<^verbatim>\<open>'''...'''\<close> are not raw, so four backslashes in the notebook's source are two in the string.
\<close>

definition template_count_query :: string where
  \<open>template_count_query =
     ''\<newline>'' @
     ''SELECT count(DISTINCT tl_from) AS num_files\<newline>'' @
     ''FROM templatelinks\<newline>'' @
     ''WHERE tl_namespace = 10 -- template\<newline>'' @
     ''AND tl_title = "{template_title}"\<newline>'' @
     ''AND tl_from_namespace = 6 -- only files\<newline>''\<close>



definition bot_caption_add_query :: string where
  \<open>bot_caption_add_query =
     ''\<newline>'' @
     ''SELECT\<newline>'' @
     ''  SUM(IF(size(event_user_is_bot_by_historical) > 0, 1, 0)) AS num_bot_edits,\<newline>'' @
     ''  SUM(IF(size(event_user_is_bot_by_historical) = 0, 1, 0)) AS num_nonbot_edits,\<newline>'' @
     ''  SUM(IF(size(event_user_is_bot_by) > 0, 1, 0)) AS num_current_bot_edits\<newline>'' @
     ''FROM wmf.mediawiki_history\<newline>'' @
     ''WHERE snapshot = "2019-10"\<newline>'' @
     ''AND wiki_db = "commonswiki"\<newline>'' @
     ''AND event_entity = "revision"\<newline>'' @
     ''AND event_type = "create"\<newline>'' @
     ''AND event_timestamp >= "2019-01-01"\<newline>'' @
     ''AND event_comment REGEXP "^...wbsetlabel-add:"\<newline>''\<close>


definition nonenglish_caption_count_query :: string where
  \<open>nonenglish_caption_count_query =
     ''\<newline>'' @
     ''SELECT COUNT(DISTINCT page_id) AS num_pages\<newline>'' @
     ''FROM wmf.mediawiki_history\<newline>'' @
     ''WHERE snapshot = "{snapshot}"\<newline>'' @
     ''AND wiki_db = "commonswiki"\<newline>'' @
     ''AND event_entity = "revision"\<newline>'' @
     ''AND event_type = "create"\<newline>'' @
     ''AND event_timestamp >= "{start_date}"\<newline>'' @
     ''AND event_timestamp < "{end_date}"\<newline>'' @
     ''AND page_is_deleted = false -- only count live pages\<newline>'' @
     ''AND page_namespace = 6 -- only count files\<newline>'' @
     ''AND event_comment REGEXP "^...wbsetlabel-add:"\<newline>'' @
     ''AND regexp_extract(event_comment, "^...wbsetlabel-add:'' @ [CHR 0x5C, CHR 0x5C] @ ''d.('' @ [CHR 0x5C, CHR 0x5C] @ ''w+(-'' @ [CHR 0x5C, CHR 0x5C] @ ''w+)?)", 1)\<newline>'' @
     ''    NOT REGEXP "^simple|en|(en-.+)$" -- not Simple English, nor English, nor any variant of English\<newline>''\<close>

definition english_caption_count_query :: string where
  \<open>english_caption_count_query =
     ''\<newline>'' @
     ''SELECT COUNT(DISTINCT page_id) AS num_pages\<newline>'' @
     ''FROM wmf.mediawiki_history\<newline>'' @
     ''WHERE snapshot = "{snapshot}"\<newline>'' @
     ''AND wiki_db = "commonswiki"\<newline>'' @
     ''AND event_entity = "revision"\<newline>'' @
     ''AND event_type = "create"\<newline>'' @
     ''AND event_timestamp >= "{start_date}"\<newline>'' @
     ''AND event_timestamp < "{end_date}"\<newline>'' @
     ''AND page_is_deleted = false -- only count live pages\<newline>'' @
     ''AND page_namespace = 6 -- only count files\<newline>'' @
     ''AND event_comment REGEXP "^...wbsetlabel-add"\<newline>'' @
     ''AND regexp_extract(event_comment, "^...wbsetlabel-add:'' @ [CHR 0x5C, CHR 0x5C] @ ''d.('' @ [CHR 0x5C, CHR 0x5C] @ ''w+(-'' @ [CHR 0x5C, CHR 0x5C] @ ''w+)?)", 1)\<newline>'' @
     ''    REGEXP "^simple|en|(en-.+)$" -- Simple English, English, or any variant of English\<newline>''\<close>

definition all_caption_count_query :: string where
  \<open>all_caption_count_query =
     ''\<newline>'' @
     ''SELECT COUNT(DISTINCT page_id) AS num_pages\<newline>'' @
     ''FROM wmf.mediawiki_history\<newline>'' @
     ''WHERE snapshot = "{snapshot}"\<newline>'' @
     ''AND wiki_db = "commonswiki"\<newline>'' @
     ''AND event_entity = "revision"\<newline>'' @
     ''AND event_type = "create"\<newline>'' @
     ''AND event_timestamp >= "{start_date}"\<newline>'' @
     ''AND event_timestamp < "{end_date}"\<newline>'' @
     ''AND page_is_deleted = false -- only count live pages\<newline>'' @
     ''AND page_namespace = 6 -- only count files\<newline>'' @
     ''AND event_comment REGEXP "^...wbsetlabel-add"\<newline>''\<close>





definition start_date :: string where
  "start_date = ''2019-01-01''"

definition end_date :: string where
  "end_date = ''2019-12-01''"


subsection \<open>Where-clauses of the caption count queries\<close>

text \<open>
  The three count queries behind the inclusion-exclusion cell are compared as texts.
  \<open>split_lines\<close> is Python's \<^verbatim>\<open>str.split('\n')\<close>; \<open>where_clause\<close> is the list of non-empty
  lines from the \<^verbatim>\<open>WHERE\<close> line on; the language predicate is the conjunct that starts with
  \<^verbatim>\<open>AND regexp_extract(\<close> (it is the last conjunct where it occurs), and \<open>base_filters\<close>
  are the conjuncts before it.
\<close>

fun split_lines :: "string \<Rightarrow> string list" where
  "split_lines [] = [] # []"
| "split_lines (c # cs) =
     (if c = CHR ''\<newline>'' then [] # split_lines cs
      else (case split_lines cs of [] \<Rightarrow> [c] # [] | l # ls \<Rightarrow> (c # l) # ls))"

definition starts_with :: "string \<Rightarrow> string \<Rightarrow> bool" where
  "starts_with p l = (take (length p) l = p)"

definition where_clause :: "string \<Rightarrow> string list" where
  "where_clause q =
     dropWhile (\<lambda>l. \<not> starts_with ''WHERE '' l) (filter (\<lambda>l. l \<noteq> []) (split_lines q))"

definition base_filters :: "string \<Rightarrow> string list" where
  "base_filters q = takeWhile (\<lambda>l. \<not> starts_with ''AND regexp_extract('' l) (where_clause q)"

definition language_predicate :: "string \<Rightarrow> string list" where
  "language_predicate q = dropWhile (\<lambda>l. \<not> starts_with ''AND regexp_extract('' l) (where_clause q)"

text \<open>The pattern of the conjunct \<^verbatim>\<open>AND event_comment REGEXP "..."\<close> among the base filters.\<close>

definition event_comment_pattern :: "string \<Rightarrow> string option" where
  \<open>event_comment_pattern q =
     (case filter (starts_with ''AND event_comment REGEXP "'') (base_filters q) of
        [l] \<Rightarrow> Some (takeWhile (\<lambda>c. c \<noteq> CHR 0x22) (drop (length ''AND event_comment REGEXP "'') l))
      | _ \<Rightarrow> None)\<close>

text \<open>
  Hive evaluates \<^verbatim>\<open>subject REGEXP pattern\<close> with Java's \<^verbatim>\<open>Matcher.find\<close>. \<open>regexp\<close> covers the
  fragment that the event-comment patterns of the three count queries are written in: a
  leading \<^verbatim>\<open>^\<close>, which anchors the match at the start of the subject, followed by dots, which
  match any character but a line terminator, and by characters that stand for themselves.
  A pattern outside this fragment gives \<open>None\<close>.
\<close>

definition is_regexp_special :: "char \<Rightarrow> bool" where
  "is_regexp_special p = (p \<in> set ''^$*+?()[]{}|'' \<or> p = CHR 0x5C)"

fun match_here :: "string \<Rightarrow> string \<Rightarrow> bool" where
  "match_here [] subject = True"
| "match_here (p # ps) [] = False"
| "match_here (p # ps) (c # cs) =
     ((if p = CHR ''.'' then c \<noteq> CHR ''\<newline>'' \<and> c \<noteq> CHR 0x0D else c = p) \<and> match_here ps cs)"

definition regexp :: "string \<Rightarrow> string \<Rightarrow> bool option" where
  "regexp subject pattern =
     (case pattern of
        [] \<Rightarrow> None
      | p # ps \<Rightarrow>
          if p = CHR ''^'' \<and> list_all (\<lambda>q. \<not> is_regexp_special q) ps
          then Some (match_here ps subject) else None)"

definition event_comment_filter :: "string \<Rightarrow> string \<Rightarrow> bool option" where
  "event_comment_filter q event_comment =
     (case event_comment_pattern q of
        None \<Rightarrow> None
      | Some pattern \<Rightarrow> regexp event_comment pattern)"

subsection \<open>pandas frames and integer series\<close>

text \<open>
  The count frames that \<^verbatim>\<open>hive.run\<close> and \<^verbatim>\<open>mariadb.run\<close> return have integer columns only
  (the notebook prints \<^verbatim>\<open>dtype: int64\<close>) and the default index \<^verbatim>\<open>0 .. n-1\<close>. A frame is the list
  of its columns, each a name with the values of its rows; a frame with no rows has empty
  columns, and a series without rows is written \<open>Int64 []\<close> whatever element type pandas
  reports for it. Column names are distinct in every frame of the notebooks; \<open>getitem\<close>
  takes the first column of a name. numpy's \<^verbatim>\<open>int64\<close> arithmetic wraps around, so the values are 64-bit words, read
  as integers by \<open>sint\<close>.

  \<^verbatim>\<open>df['num_pages']\<close> raises \<open>KeyError\<close> when the frame has no such column. Series
  arithmetic aligns the two operands on their index: with equal indexes the operation is
  applied row by row and the result stays \<^verbatim>\<open>int64\<close>; with different indexes pandas takes the
  union of the indexes and fills the missing rows with \<^verbatim>\<open>NaN\<close>, which turns the result into
  a \<^verbatim>\<open>float64\<close> series. Floating-point contents are not modelled: \<open>Float64 n\<close> is a
  \<^verbatim>\<open>float64\<close> series of \<open>n\<close> rows. No exception is raised in either case.
\<close>

type_synonym int64 = "64 word"

type_synonym frame = "(string \<times> int64 list) list"

datatype series = Int64 "int64 list" | Float64 nat

definition getitem :: "frame \<Rightarrow> string \<Rightarrow> error + series" where
  "getitem df col =
     (case map_of df col of
        None \<Rightarrow> Inl (KeyError col)
      | Some vs \<Rightarrow> Inr (Int64 vs))"

fun series_len :: "series \<Rightarrow> nat" where
  "series_len (Int64 xs) = length xs"
| "series_len (Float64 n) = n"

fun series_binop :: "(int64 \<Rightarrow> int64 \<Rightarrow> int64) \<Rightarrow> series \<Rightarrow> series \<Rightarrow> series" where
  "series_binop f (Int64 xs) (Int64 ys) =
     (if length xs = length ys then Int64 (map2 f xs ys)
      else Float64 (max (length xs) (length ys)))"
| "series_binop f x y = Float64 (max (series_len x) (series_len y))"

text \<open>
  The cell ``Number of pages with both'' of \<^verbatim>\<open>T231952-part-1.ipynb\<close>:
  \<^verbatim>\<open>
  (nonenglish_caption_filecount['num_pages'] + english_caption_filecount['num_pages']
      - all_caption_filecount['num_pages'])
  \<close>
  Python evaluates the two operands of the sum, adds them, evaluates the third column and
  subtracts it.
\<close>

definition pages_with_both :: "frame \<Rightarrow> frame \<Rightarrow> frame \<Rightarrow> error + series" where
  "pages_with_both nonenglish english all_captions =
     (case getitem nonenglish ''num_pages'' of
        Inl e \<Rightarrow> Inl e
      | Inr a \<Rightarrow>
          (case getitem english ''num_pages'' of
             Inl e \<Rightarrow> Inl e
           | Inr b \<Rightarrow>
               (case getitem all_captions ''num_pages'' of
                  Inl e \<Rightarrow> Inl e
                | Inr u \<Rightarrow> Inr (series_binop (-) (series_binop (+) a b) u))))"

text \<open>
  The specification's \<^verbatim>\<open>pairwise_overlap(count_a, count_b, count_union)\<close> is this cell applied
  to three scalar counts, each held, as in the notebook, in a one-row frame with the column
  \<^verbatim>\<open>num_pages\<close>.
\<close>

definition count_frame :: "int64 \<Rightarrow> frame" where
  "count_frame n = [(''num_pages'', [n])]"

definition pairwise_overlap :: "int64 \<Rightarrow> int64 \<Rightarrow> int64 \<Rightarrow> error + series" where
  "pairwise_overlap count_a count_b count_union =
     pages_with_both (count_frame count_a) (count_frame count_b) (count_frame count_union)"

text \<open>The three frames as the notebook records them.\<close>

definition nonenglish_caption_filecount :: frame where
  "nonenglish_caption_filecount = [(''num_pages'', [731900])]"

definition english_caption_filecount :: frame where
  "english_caption_filecount = [(''num_pages'', [776401])]"

definition all_caption_filecount :: frame where
  "all_caption_filecount = [(''num_pages'', [1365092])]"

subsection \<open>The row store: \<^verbatim>\<open>mariadb.run\<close>\<close>

text \<open>
  \<^verbatim>\<open>mariadb.run(sql, db)\<close> belongs to the \<^verbatim>\<open>wmfdata\<close> package and queries a database server;
  the cells take it as a parameter. The cell of \<^verbatim>\<open>sdc_usage_through_lua.ipynb\<close> under
  ``Number of files that contain the template'':
  \<^verbatim>\<open>mariadb.run(template_count_query.format(template_title = 'Information'), 'commonswiki')\<close>
\<close>

type_synonym row_store = "string \<Rightarrow> string \<Rightarrow> error + frame"

definition information_template_count :: "row_store \<Rightarrow> error + frame" where
  "information_template_count mariadb_run =
     (case format_py [''template_title'' \<mapsto> ''Information''] template_count_query of
        Inl e \<Rightarrow> Inl e
      | Inr sql \<Rightarrow> mariadb_run sql ''commonswiki'')"

text \<open>
  The statement that this cell and its sibling for \<^verbatim>\<open>'Artwork'\<close> send, for a template title.
\<close>

definition template_count_statement :: "string \<Rightarrow> string" where
  \<open>template_count_statement title =
     ''\<newline>'' @
     ''SELECT count(DISTINCT tl_from) AS num_files\<newline>'' @
     ''FROM templatelinks\<newline>'' @
     ''WHERE tl_namespace = 10 -- template\<newline>'' @
     ''AND tl_title = "'' @
     title @
     ''"\<newline>'' @
     ''AND tl_from_namespace = 6 -- only files\<newline>''\<close>

text \<open>
  Modelled from the spec: the ``fixed backend fixture'' of the specification's end-to-end
  scenario 1 is not part of the repository, and \<^verbatim>\<open>mariadb.run\<close> itself is external. The
  fixture answers the two count statements of \<^verbatim>\<open>sdc_usage_through_lua.ipynb\<close>
  (\<^verbatim>\<open>SELECT count(DISTINCT tl_from) ...\<close>, with and without the join on
  \<^verbatim>\<open>wbc_entity_usage\<close>) on the database \<^verbatim>\<open>commonswiki\<close>, with one row and one column:
  \<^item> the count is the one of the reference run that the notebook stores for the template
    title of the statement (51836906 and 2013 for \<^verbatim>\<open>Information\<close>, 2429145 and 17 for
    \<^verbatim>\<open>Artwork\<close>), and 0 for any other title;
  \<^item> the column is labelled as \<^verbatim>\<open>mariadb.run\<close> labels columns, by the alias after \<^verbatim>\<open>AS\<close> and by
    the text of the expression where there is no alias (the first cell of the notebook shows
    both: its columns are \<^verbatim>\<open>count(*)\<close> and \<^verbatim>\<open>num_with_title\<close>).
  Title, join and alias are read from the statement that the fixture receives. The outputs
  stored with the four cells show the counts under the label \<^verbatim>\<open>count(DISTINCT tl_from)\<close>,
  the label of the expression without an alias; the templates as the notebook defines them
  carry the alias \<^verbatim>\<open>num_files\<close>.
\<close>

fun after_infix :: "string \<Rightarrow> string \<Rightarrow> string option" where
  "after_infix needle [] = (if needle = [] then Some [] else None)"
| "after_infix needle (c # cs) =
     (if starts_with needle (c # cs) then Some (drop (length needle) (c # cs))
      else after_infix needle cs)"

definition select_item :: "string \<Rightarrow> string option" where
  "select_item sql =
     (case filter (starts_with ''SELECT '') (split_lines sql) of
        [] \<Rightarrow> None
      | l # ls \<Rightarrow> Some (drop (length ''SELECT '') l))"

definition column_label :: "string \<Rightarrow> string" where
  "column_label item =
     (case after_infix '' AS '' item of
        None \<Rightarrow> item
      | Some alias \<Rightarrow> alias)"

definition title_filter :: "string \<Rightarrow> string option" where
  \<open>title_filter sql =
     (case after_infix ''tl_title = "'' sql of
        None \<Rightarrow> None
      | Some rest \<Rightarrow> Some (takeWhile (\<lambda>c. c \<noteq> CHR 0x22) rest))\<close>

definition joins_entity_usage :: "string \<Rightarrow> bool" where
  "joins_entity_usage sql = (after_infix ''JOIN wbc_entity_usage'' sql \<noteq> None)"

definition reference_counts :: "((bool \<times> string) \<times> int64) list" where
  "reference_counts =
     [((False, ''Information''), 51836906),
      ((True, ''Information''), 2013),
      ((False, ''Artwork''), 2429145),
      ((True, ''Artwork''), 17)]"

definition fixture_mariadb :: row_store where
  "fixture_mariadb sql db =
     (if db \<noteq> ''commonswiki'' then Inl (QueryExecutionError ''unknown database'')
      else case (select_item sql, title_filter sql) of
             (Some item, Some title) \<Rightarrow>
               if starts_with ''count(DISTINCT tl_from)'' item then
                 (case map_of reference_counts (joins_entity_usage sql, title) of
                    None \<Rightarrow> Inr [(column_label item, [0])]
                  | Some n \<Rightarrow> Inr [(column_label item, [n])])
               else Inl (QueryExecutionError ''unsupported statement'')
           | _ \<Rightarrow> Inl (QueryExecutionError ''unsupported statement''))"

subsection \<open>The batch store: \<^verbatim>\<open>hive.run\<close>\<close>

text \<open>
  Modelled from the spec: \<^verbatim>\<open>hive.run\<close> belongs to the \<^verbatim>\<open>wmfdata\<close> package, whose code is not
  part of the notebooks; only its call sites are, each with the list
  \<^verbatim>\<open>["SET mapreduce.map.memory.mb=4096", query]\<close>. The specification says of it: ``sends
  \<^verbatim>\<open>pre_statements\<close> (if any, executed in order, results discarded) followed by the main query
  text to the query's designated backend; returns a QueryResult'', ``all but the last
  statement are configuration/session directives executed for side effect only, and the last
  is the query whose result is returned'', and ``no retry is performed --- a failure is
  surfaced immediately to the caller''. The backend executes one statement in a session
  state and returns a frame or a failure together with the new state.
\<close>

type_synonym 's batch_store = "string \<Rightarrow> 's \<Rightarrow> (error + frame) \<times> 's"

fun run :: "'s batch_store \<Rightarrow> string \<Rightarrow> string list \<Rightarrow> 's \<Rightarrow> (error + frame) \<times> 's" where
  "run execute sql_text [] s = execute sql_text s"
| "run execute sql_text (p # pre_statements) s =
     (case execute p s of
        (Inl e, s') \<Rightarrow> (Inl e, s')
      | (Inr discarded, s') \<Rightarrow> run execute sql_text pre_statements s')"

text \<open>The session after a list of statements, and whether each of them succeeds in its turn.\<close>

fun session_after :: "'s batch_store \<Rightarrow> string list \<Rightarrow> 's \<Rightarrow> 's" where
  "session_after execute [] s = s"
| "session_after execute (p # ps) s = session_after execute ps (snd (execute p s))"

fun all_succeed :: "'s batch_store \<Rightarrow> string list \<Rightarrow> 's \<Rightarrow> bool" where
  "all_succeed execute [] s = True"
| "all_succeed execute (p # ps) s =
     (\<not> isl (fst (execute p s)) \<and> all_succeed execute ps (snd (execute p s)))"

text \<open>
  The cell \<^verbatim>\<open>botadded_captions_counts = hive.run(["SET mapreduce.map.memory.mb=4096",
  bot_caption_add_query])\<close> and the frame recorded as its output.
\<close>

definition botadded_captions_counts :: "'s batch_store \<Rightarrow> 's \<Rightarrow> (error + frame) \<times> 's" where
  "botadded_captions_counts execute =
     run execute bot_caption_add_query [''SET mapreduce.map.memory.mb=4096'']"

definition recorded_botadded_captions_counts :: frame where
  "recorded_botadded_captions_counts =
     [(''num_bot_edits'', [103]), (''num_nonbot_edits'', [1500692]),
      (''num_current_bot_edits'', [100])]"

text \<open>
  A batch store for experiments: its session state is the log of the statements executed so
  far; a \<^verbatim>\<open>SET\<close> directive returns a frame without columns, every other statement the
  recorded frame.
\<close>

definition logging_store :: "string list batch_store" where
  "logging_store statement log =
     (Inr (if starts_with ''SET '' statement then [] else recorded_botadded_captions_counts),
      log @ [statement])"

section \<open>Properties\<close>

subsection \<open>Integer series arithmetic\<close>

lemma getitem_cases:
  "getitem df col = Inl (KeyError col) \<or> (\<exists>vs. getitem df col = Inr (Int64 vs))"
  by (simp add: getitem_def split: option.splits)

lemma series_add_commute: "series_binop (+) a b = series_binop (+) b a"
proof (cases a; cases b)
  fix xs ys assume ab: "a = Int64 xs" "b = Int64 ys"
  have "length xs = length ys \<Longrightarrow> map2 (+) xs ys = map2 (+) ys xs"
    by (induction xs ys rule: list_induct2) (simp_all add: add.commute)
  then show ?thesis using ab by (auto simp add: max.commute)
qed (simp_all add: max.commute)

lemma pages_with_both_commute: "pages_with_both f g h = pages_with_both g f h"
  using getitem_cases [of f "''num_pages''"] getitem_cases [of g "''num_pages''"]
  unfolding pages_with_both_def
  by (elim disjE exE) (simp_all only: sum.case series_add_commute)

lemma pairwise_overlap_value: "pairwise_overlap a b u = Inr (Int64 [a + b - u])"
  by (simp add: pairwise_overlap_def pages_with_both_def count_frame_def getitem_def)

lemma sint_of_int64:
  "- (2 ^ 63) \<le> k \<Longrightarrow> k < 2 ^ 63 \<Longrightarrow> sint (word_of_int k :: int64) = k"
  by (simp add: sint_sbintrunc' signed_take_bit_int_eq_self)

lemma sint_of_nat64: "n < 2 ^ 63 \<Longrightarrow> sint (of_nat n :: int64) = int n"
  using sint_of_int64 [of "int n"] by simp

lemma sint_overlap:
  assumes "- (2 ^ 63) \<le> sint a + sint b - sint u" "sint a + sint b - sint u < 2 ^ 63"
  shows "sint (a + b - u :: int64) = sint a + sint b - sint u"
proof -
  have "a + b - u = word_of_int (sint a + sint b - sint u)" by simp
  then show ?thesis using sint_of_int64 [OF assms] by simp
qed

text \<open>
  Claim C1. When the three counts are the sizes of two finite sets and of their union, as
  they are when the three queries count over the same base filters, \<open>pairwise_overlap\<close>
  returns a one-row series whose value is \<open>count_a + count_b - count_union\<close>, and this is
  the size of the intersection. The 64-bit arithmetic of the series does not disturb the
  result as long as the union count itself fits into \<^verbatim>\<open>int64\<close>.
\<close>

theorem pairwise_overlap_inclusion_exclusion:
  assumes "finite A" "finite B" "card (A \<union> B) < 2 ^ 63"
  shows "\<exists>r. pairwise_overlap (of_nat (card A)) (of_nat (card B)) (of_nat (card (A \<union> B)))
               = Inr (Int64 [r])
           \<and> sint r = int (card A) + int (card B) - int (card (A \<union> B))
           \<and> sint r = int (card (A \<inter> B))"
proof -
  let ?r = "of_nat (card A) + of_nat (card B) - of_nat (card (A \<union> B)) :: int64"
  have e: "card A + card B = card (A \<union> B) + card (A \<inter> B)"
    using assms(1,2) by (rule card_Un_Int)
  have "(of_nat (card A + card B) :: int64) = of_nat (card (A \<union> B) + card (A \<inter> B))"
    by (simp only: e)
  then have r: "?r = of_nat (card (A \<inter> B))"
    by (simp only: of_nat_add add_diff_cancel_left')
  have "card (A \<inter> B) \<le> card (A \<union> B)"
    using assms(1,2) by (intro card_mono) auto
  then have "card (A \<inter> B) < 2 ^ 63" using assms(3) by linarith
  then have s: "sint ?r = int (card (A \<inter> B))" by (simp only: r sint_of_nat64)
  have t: "int (card (A \<inter> B)) = int (card A) + int (card B) - int (card (A \<union> B))"
    using e by linarith
  show ?thesis
  proof (intro exI conjI)
    show "pairwise_overlap (of_nat (card A)) (of_nat (card B)) (of_nat (card (A \<union> B)))
            = Inr (Int64 [?r])"
      by (rule pairwise_overlap_value)
    show "sint ?r = int (card A) + int (card B) - int (card (A \<union> B))" using s t by simp
    show "sint ?r = int (card (A \<inter> B))" by (rule s)
  qed
qed

theorem pairwise_overlap_inclusion_exclusion_witness:
  "finite {1::nat, 2, 3} \<and> finite {3::nat, 4} \<and> card ({1::nat, 2, 3} \<union> {3, 4}) < 2 ^ 63 \<and>
   (\<exists>r. pairwise_overlap 3 2 4 = Inr (Int64 [r]) \<and> sint r = 3 + 2 - 4 \<and> sint r = 1)"
proof -
  have u: "{1::nat, 2, 3} \<union> {3, 4} = {1, 2, 3, 4}" by auto
  have i: "{1::nat, 2, 3} \<inter> {3, 4} = {3}" by auto
  have c: "card {1::nat, 2, 3} = 3" "card {3::nat, 4} = 2" "card {1::nat, 2, 3, 4} = 4"
    "card {3::nat} = 1"
    by simp_all
  have h: "card ({1::nat, 2, 3} \<union> {3, 4}) < 2 ^ 63" by (simp only: u c) simp
  show ?thesis
    using h pairwise_overlap_inclusion_exclusion [of "{1::nat, 2, 3}" "{3, 4}", OF _ _ h]
    by (simp only: u i c) simp
qed

text \<open>
  Claim C2, as stated, fails: the cell is a plain arithmetic expression and raises nothing.
  With \<open>a + b < union\<close> it returns the negative number.
\<close>

theorem pairwise_overlap_negative_counterexample:
  "sint (1 :: int64) + sint (1 :: int64) < sint (3 :: int64)
   \<and> pairwise_overlap 1 1 3 = Inr (Int64 [- 1]) \<and> sint (- 1 :: int64) = - 1"
  by (simp add: pairwise_overlap_value)

text \<open>
  Claim C2, amended. \<open>pairwise_overlap\<close> never raises: for every triple of counts it returns
  a one-row series, and whenever \<open>a + b - union\<close> lies in the \<^verbatim>\<open>int64\<close> range the value of that
  row is exactly \<open>a + b - union\<close>, which is negative when \<open>a + b < union\<close>.
\<close>

theorem pairwise_overlap_never_raises:
  "\<exists>r. pairwise_overlap a b u = Inr (Int64 [r])
       \<and> (- (2 ^ 63) \<le> sint a + sint b - sint u \<and> sint a + sint b - sint u < 2 ^ 63
            \<longrightarrow> sint r = sint a + sint b - sint u \<and> (sint a + sint b < sint u \<longrightarrow> sint r < 0))"
proof (intro exI conjI impI)
  show "pairwise_overlap a b u = Inr (Int64 [a + b - u])"
    by (rule pairwise_overlap_value)
next
  assume "- (2 ^ 63) \<le> sint a + sint b - sint u \<and> sint a + sint b - sint u < 2 ^ 63"
  then show "sint (a + b - u) = sint a + sint b - sint u"
    using sint_overlap by blast
next
  assume "- (2 ^ 63) \<le> sint a + sint b - sint u \<and> sint a + sint b - sint u < 2 ^ 63"
    and "sint a + sint b < sint u"
  then show "sint (a + b - u) < 0"
    using sint_overlap [of a b u] by linarith
qed

theorem pairwise_overlap_never_raises_witness:
  "- (2 ^ 63) \<le> sint (2 :: int64) + sint (3 :: int64) - sint (7 :: int64)
   \<and> sint (2 :: int64) + sint (3 :: int64) - sint (7 :: int64) < 2 ^ 63
   \<and> sint (2 :: int64) + sint (3 :: int64) < sint (7 :: int64)
   \<and> (\<exists>r. pairwise_overlap 2 3 7 = Inr (Int64 [r]) \<and> sint r = - 2 \<and> sint r < 0)"
  using pairwise_overlap_never_raises [of 2 3 7] by simp

text \<open>
  Claim C6. \<open>pairwise_overlap\<close> is commutative in its first two arguments. The same holds
  for the cell on arbitrary frames, failures included: whichever of the first two frames
  lacks the column, the exception is \<open>KeyError\<close> with the key \<^verbatim>\<open>num_pages\<close>.
\<close>

theorem pairwise_overlap_commutative:
  "pairwise_overlap a b u = pairwise_overlap b a u
   \<and> pages_with_both f g h = pages_with_both g f h"
  unfolding pairwise_overlap_def
  by (simp only: pages_with_both_commute [of "count_frame a" "count_frame b"]
      pages_with_both_commute [of f g])

theorem pairwise_overlap_commutative_witness:
  "pairwise_overlap 5 9 11 = pairwise_overlap 9 5 11
   \<and> pages_with_both [] (count_frame 9) (count_frame 11) = Inl (KeyError ''num_pages'')
   \<and> pages_with_both (count_frame 9) [] (count_frame 11) = Inl (KeyError ''num_pages'')"
  using pairwise_overlap_commutative [of 5 9 11 "[]" "count_frame 9" "count_frame 11"]
  by (simp add: pages_with_both_def getitem_def count_frame_def)

text \<open>
  Claim C8. On the recorded counts 731900 (non-English), 776401 (English) and 1365092 (all
  captions) the result is 143209, the value the notebook prints for ``Number of pages with
  both''; the cell applied to the three recorded frames gives the same series.
\<close>

theorem pairwise_overlap_recorded_counts:
  "pairwise_overlap 731900 776401 1365092 = Inr (Int64 [143209])
   \<and> pages_with_both nonenglish_caption_filecount english_caption_filecount
        all_caption_filecount = Inr (Int64 [143209])
   \<and> sint (143209 :: int64) = 731900 + 776401 - 1365092"
  by (simp add: pairwise_overlap_value pages_with_both_def getitem_def
      nonenglish_caption_filecount_def english_caption_filecount_def all_caption_filecount_def)




subsection \<open>Binding plain templates\<close>

lemma name_char_not_special:
  "is_name_char c \<Longrightarrow> c \<noteq> CHR ''{'' \<and> c \<noteq> CHR ''}'' \<and> c \<notin> set ''!:.[''"
  by (auto simp add: is_name_char_def)

lemma parse_field_name:
  "list_all is_name_char name \<Longrightarrow> parse_field (name @ CHR ''}'' # rest) = Inr name"
  by (induction name) (auto dest: name_char_not_special)

lemma placeholder_atD:
  assumes "placeholder_at cs = Some name"
  shows "name \<noteq> []" "list_all is_name_char name"
    "cs = name @ CHR ''}'' # drop (Suc (length name)) cs"
proof -
  from assms have n: "name = takeWhile is_name_char cs" "name \<noteq> []"
    and t: "take 1 (drop (length name) cs) = ''}''"
    by (auto simp add: placeholder_at_def Let_def split: if_splits)
  show "name \<noteq> []" by fact
  show "list_all is_name_char name"
    using n(1) by (auto simp add: list_all_iff dest: set_takeWhileD)
  from t obtain r where r: "drop (length name) cs = CHR ''}'' # r"
    by (cases "drop (length name) cs") auto
  have "name = take (length name) cs"
    using n(1) by (metis takeWhile_eq_take)
  then have "cs = name @ drop (length name) cs"
    by (metis append_take_drop_id)
  moreover have "drop (Suc (length name)) cs = r"
    using r by (metis drop_Suc tl_drop list.sel(3))
  ultimately show "cs = name @ CHR ''}'' # drop (Suc (length name)) cs"
    using r by simp
qed

lemma get_integer_nondigit:
  "name \<noteq> [] \<Longrightarrow> \<not> is_digit (hd name) \<Longrightarrow> get_integer 0 name = Inr None"
  by (cases name) simp_all

lemma get_field_name:
  "name \<noteq> [] \<Longrightarrow> \<not> is_digit (hd name) \<Longrightarrow>
   get_field kwargs name = (case kwargs name of None \<Rightarrow> Inl (KeyError name) | Some v \<Rightarrow> Inr v)"
  by (simp add: get_field_def get_integer_nondigit)

lemma format_py_placeholder:
  assumes "placeholder_at cs = Some name" "\<not> is_digit (hd name)"
  shows "format_py kwargs (CHR ''{'' # cs) =
    (case kwargs name of
       None \<Rightarrow> Inl (KeyError name)
     | Some v \<Rightarrow> emit v (format_py kwargs (drop (Suc (length name)) cs)))"
proof -
  note d = placeholder_atD [OF assms(1)]
  obtain d0 ds where cs: "cs = d0 # ds" using d(1,3) by (cases cs) auto
  have "d0 = hd name" using d(1,3) cs by (metis hd_append2 list.sel(1))
  then have "is_name_char d0" using d(1,2) by (cases name) simp_all
  then have d0: "d0 \<noteq> CHR ''{''" using name_char_not_special by blast
  have p: "parse_field cs = Inr name"
    using parse_field_name [OF d(2)] d(3) by metis
  have "format_py kwargs (CHR ''{'' # d0 # ds) =
     (case parse_field (d0 # ds) of
        Inl e \<Rightarrow> Inl e
      | Inr field_name \<Rightarrow>
          (case get_field kwargs field_name of
             Inl e \<Rightarrow> Inl e
           | Inr v \<Rightarrow> emit v (format_py kwargs (drop (Suc (length field_name)) (d0 # ds)))))"
    using d0 by (simp del: parse_field.simps)
  then show ?thesis
    using p cs get_field_name [OF d(1) assms(2)]
    by (simp del: parse_field.simps format_py.simps split: option.splits)
qed

text \<open>
  On a plain template \<^verbatim>\<open>str.format\<close> does what \<open>bind_result\<close> says. The induction follows the
  recursion of \<open>plain_template\<close>: a placeholder is consumed whole, any other character alone.
\<close>

lemma format_py_plain:
  "plain_template template \<Longrightarrow> format_py params template = bind_result params template"
proof (induction template rule: plain_template.induct)
  case 1
  show ?case by (simp add: bind_result_def)
next
  case (2 c cs)
  show ?case
  proof (cases "c = CHR ''{''")
    case True
    with "2.prems" obtain name where n: "placeholder_at cs = Some name"
      "\<not> is_digit (hd name)" "plain_template (drop (Suc (length name)) cs)"
      by (auto split: option.splits)
    have ih: "format_py params (drop (Suc (length name)) cs)
              = bind_result params (drop (Suc (length name)) cs)"
      using "2.IH"(1) [OF True n(1)] n(2,3) by simp
    show ?thesis
      using True n(1) ih format_py_placeholder [OF n(1,2), of params]
      by (simp add: bind_result_def emit_def del: format_py.simps split: option.splits)
  next
    case False
    with "2.prems" have p: "c \<noteq> CHR ''}''" "plain_template cs" by simp_all
    have "format_py params cs = bind_result params cs"
      using "2.IH"(2) [OF False] p by simp
    then show ?thesis
      using False p(1) by (simp add: bind_result_def emit_def split: option.splits)
  qed
qed

lemma no_missing_iff:
  "find (\<lambda>name. params name = None) names = None \<longleftrightarrow> set names \<subseteq> dom params"
  by (auto simp add: find_None_iff)


text \<open>Every template of the notebooks is plain.\<close>

lemma plain_template_count_query: "plain_template template_count_query"
  by code_simp











lemma placeholders_template_count_query:
  "placeholders template_count_query = [''template_title'']"
  by code_simp






text \<open>
  Claim C5, as stated, fails for template texts in general: \<^verbatim>\<open>str.format\<close> reads a doubled
  brace as an escape and writes a single one, so the characters outside placeholders are
  not all left unchanged.
\<close>

theorem format_is_single_pass_counterexample:
  "placeholders ''WHERE tag = {{}}'' = []
   \<and> fill_pass Map.empty ''WHERE tag = {{}}'' = ''WHERE tag = {{}}''
   \<and> format_py Map.empty ''WHERE tag = {{}}'' = Inr ''WHERE tag = {}''"
  by code_simp

text \<open>
  Claim C5, amended. For every plain template text (one whose braces occur only in
  \<^verbatim>\<open>{name}\<close> placeholders, as in all templates of the notebooks) and every mapping that has a
  value for each placeholder, \<^verbatim>\<open>str.format\<close> returns the result of the single left-to-right
  pass that replaces each placeholder by its value and copies every other character. The
  inserted values are not scanned again.
\<close>

theorem format_is_single_pass:
  assumes "plain_template template" "set (placeholders template) \<subseteq> dom params"
  shows "format_py params template = Inr (fill_pass params template)"
  using format_py_plain [OF assms(1), of params] assms(2)
    no_missing_iff [of params "placeholders template"]
  by (simp add: bind_result_def)

lemma fill_template_count_query:
  "fill_pass [''template_title'' \<mapsto> ''{x}''] template_count_query
     = template_count_statement ''{x}''"
  by code_simp

theorem format_is_single_pass_witness:
  "plain_template template_count_query
   \<and> set (placeholders template_count_query) \<subseteq> dom [''template_title'' \<mapsto> ''{x}'']
   \<and> format_py [''template_title'' \<mapsto> ''{x}''] template_count_query
       = Inr (template_count_statement ''{x}'')"
proof -
  have s: "set (placeholders template_count_query) \<subseteq> dom [''template_title'' \<mapsto> ''{x}'']"
    by (simp add: placeholders_template_count_query)
  show ?thesis
    using format_is_single_pass [OF plain_template_count_query s] s
      plain_template_count_query fill_template_count_query
    by simp
qed

subsection \<open>The template count against the row-store fixture\<close>

lemma information_statement:
  "format_py [''template_title'' \<mapsto> ''Information''] template_count_query
     = Inr (template_count_statement ''Information'')"
  by code_simp

lemma fixture_answer:
  "fixture_mariadb (template_count_statement ''Information'') ''commonswiki''
     = Inr [(''num_files'', [51836906])]"
  by code_simp

text \<open>
  Claim C7. Whatever the row store, the cell returns what the store answers to the bound
  statement, the template with \<^verbatim>\<open>Information\<close> in the place of the placeholder, on
  \<^verbatim>\<open>commonswiki\<close>. Against the fixture the answer is a frame with exactly one column, named
  \<^verbatim>\<open>num_files\<close> after the alias in the statement, and one row, holding 51836906.
\<close>

theorem information_count_fixture:
  "information_template_count mariadb_run
     = mariadb_run (template_count_statement ''Information'') ''commonswiki''
   \<and> information_template_count fixture_mariadb = Inr [(''num_files'', [51836906])]"
  by (simp add: information_template_count_def information_statement fixture_answer)

subsection \<open>Pre-statements of the batch store\<close>

text \<open>
  Claim C4. When every pre-statement succeeds in its turn, \<open>run\<close> returns exactly what the
  backend returns for the main query in the session that the pre-statements, executed one
  after the other in the given order, leave behind; the frames they return are dropped.
\<close>

theorem run_returns_main_query_result:
  assumes "all_succeed execute pre_statements s"
  shows "run execute sql_text pre_statements s
           = execute sql_text (session_after execute pre_statements s)"
  using assms
proof (induction pre_statements arbitrary: s)
  case Nil
  show ?case by simp
next
  case (Cons p ps)
  obtain r s' where e: "execute p s = (r, s')" by (cases "execute p s")
  with Cons.prems have ok: "\<not> isl r" "all_succeed execute ps s'" by simp_all
  then obtain discarded where r: "r = Inr discarded" by (cases r) simp_all
  have "run execute sql_text (p # ps) s = run execute sql_text ps s'"
    using e r by simp
  also have "\<dots> = execute sql_text (session_after execute ps s')"
    using ok(2) by (rule Cons.IH)
  finally show ?case using e by simp
qed

lemma bot_query_is_no_directive: "\<not> starts_with ''SET '' bot_caption_add_query"
  by code_simp

theorem run_returns_main_query_result_witness:
  "all_succeed logging_store [''SET mapreduce.map.memory.mb=4096''] []
   \<and> botadded_captions_counts logging_store []
       = (Inr recorded_botadded_captions_counts,
          [''SET mapreduce.map.memory.mb=4096'', bot_caption_add_query])"
proof -
  have a: "all_succeed logging_store [''SET mapreduce.map.memory.mb=4096''] []"
    by (simp add: logging_store_def)
  show ?thesis
    using a run_returns_main_query_result [OF a, of bot_caption_add_query]
      bot_query_is_no_directive
    by (simp add: botadded_captions_counts_def logging_store_def)
qed

subsection \<open>Base filters of the three caption count queries\<close>

text \<open>
  Claim C10 does not hold of the notebook. The English query and the all-captions query
  have the same base filters, but the non-English query differs from both in the
  event-comment predicate: its pattern ends in a colon, \<^verbatim>\<open>"^...wbsetlabel-add:"\<close>, where the
  other two have \<^verbatim>\<open>"^...wbsetlabel-add"\<close>. All other base filters agree. The two patterns
  are not equivalent: the edit comment \<^verbatim>\<open>/* wbsetlabel-add */\<close> passes the filter of the
  all-captions query and not that of the non-English query.
\<close>

theorem event_comment_filters_differ:
  "base_filters english_caption_count_query = base_filters all_caption_count_query
   \<and> base_filters nonenglish_caption_count_query \<noteq> base_filters all_caption_count_query
   \<and> butlast (base_filters nonenglish_caption_count_query)
       = butlast (base_filters all_caption_count_query)
   \<and> event_comment_pattern nonenglish_caption_count_query = Some ''^...wbsetlabel-add:''
   \<and> event_comment_pattern english_caption_count_query = Some ''^...wbsetlabel-add''
   \<and> event_comment_pattern all_caption_count_query = Some ''^...wbsetlabel-add''
   \<and> event_comment_filter all_caption_count_query ''/* wbsetlabel-add */'' = Some True
   \<and> event_comment_filter english_caption_count_query ''/* wbsetlabel-add */'' = Some True
   \<and> event_comment_filter nonenglish_caption_count_query ''/* wbsetlabel-add */'' = Some False"
  by code_simp

end
